theory Spec2Isabelle
  imports Complex_Main "HOL-Library.Product_Lexorder" "HOL-Library.Multiset" "HOL-Library.Log_Nat"
begin

section \<open>Entity model\<close>

text \<open>
  The rows of \<^verbatim>\<open>config/models.py\<close>. Every class has an \<^verbatim>\<open>id\<close> and several share
  \<^verbatim>\<open>name\<close>, \<^verbatim>\<open>price\<close> and \<^verbatim>\<open>created_at\<close>, so each field carries the initial of its
  class. Conventions used throughout:
  \<^item> \<^verbatim>\<open>Integer\<close> columns are \<open>int\<close> (Python integers are unbounded);
  \<^item> \<^verbatim>\<open>Float\<close> columns are \<open>rat\<close>: a stored value is a finite double, which is a
    rational number. Comparing two such values is exact. Arithmetic on them is the
    arithmetic of Python floats, which rounds: see the section on Python floats;
  \<^item> \<^verbatim>\<open>DateTime\<close> columns are \<open>int\<close>, the number of microseconds since a fixed origin
    (the resolution of Python's \<^verbatim>\<open>datetime\<close>);
  \<^item> \<^verbatim>\<open>String\<close> columns are \<open>string\<close>, read as ASCII text;
  \<^item> \<^verbatim>\<open>User.age\<close> is the one column the rules treat as possibly \<^verbatim>\<open>None\<close>.
  Printing is left out: a rule returns the lists it collects and its verdict.
\<close>

type_synonym timestamp = int

record User =
  u_id :: int
  u_name :: string
  u_email :: string
  u_created_at :: timestamp
  u_is_active :: bool
  u_age :: "int option"

record Product =
  p_id :: int
  p_name :: string
  p_sku :: string
  p_price :: rat
  p_stock :: int
  p_created_at :: timestamp

record Order =
  o_id :: int
  o_user_id :: int
  o_status :: string
  o_total_amount :: rat
  o_created_at :: timestamp

record OrderItem =
  i_id :: int
  i_order_id :: int
  i_product_id :: int
  i_quantity :: int
  i_price :: rat

text \<open>
  The outcome of one test function: \<open>Failed\<close> is a failed \<^verbatim>\<open>assert\<close> or a call of
  \<^verbatim>\<open>pytest.fail\<close>, \<open>Passed\<close> is reaching the end of the function.
\<close>

datatype verdict = Passed | Failed

section \<open>Python floats\<close>

text \<open>
  A Python \<^verbatim>\<open>float\<close> is an IEEE 754 binary64 number: a finite double, an infinity or a
  NaN. A finite double is a rational \<open>m * 2\<^sup>e\<close> with \<open>\<bar>m\<bar> < 2\<^sup>5\<^sup>3\<close> and
  \<open>- 1074 \<le> e\<close>, of magnitude below \<open>2\<^sup>1\<^sup>0\<^sup>2\<^sup>4\<close>. The two zeros are not told apart: they
  compare equal, and the rules only compare.

  \<open>round_double x\<close> is the rational \<open>x\<close> rounded to 53 significant bits (to a multiple
  of \<open>2\<^sup>-\<^sup>1\<^sup>0\<^sup>7\<^sup>4\<close> in the subnormal range), to nearest, ties to the even significand.
  \<open>to_double\<close> adds the overflow to an infinity. Each arithmetic operation is the exact
  operation followed by \<open>to_double\<close>; a decimal literal such as \<^verbatim>\<open>0.01\<close> denotes
  \<open>to_double (1 / 100)\<close>.
\<close>

definition pow2 :: "int \<Rightarrow> rat" where
  "pow2 e = (if 0 \<le> e then 2 ^ nat e else 1 / 2 ^ nat (- e))"

text \<open>For \<open>x > 0\<close>, the integer \<open>k\<close> with \<open>2\<^sup>k \<le> x < 2\<^sup>k\<^sup>+\<^sup>1\<close>.\<close>

definition floor_log2 :: "rat \<Rightarrow> int" where
  "floor_log2 x =
     (case quotient_of x of
        (p, q) \<Rightarrow> (let d = bitlen p - bitlen q in if pow2 d \<le> x then d else d - 1))"

definition round_half_even :: "rat \<Rightarrow> int" where
  "round_half_even y =
     (let f = \<lfloor>y\<rfloor>; r = y - of_int f
      in if r < 1 / 2 then f else if 1 / 2 < r then f + 1 else if even f then f else f + 1)"

definition round_double :: "rat \<Rightarrow> rat" where
  "round_double x =
     (if x = 0 then 0
      else (let e = max (floor_log2 \<bar>x\<bar> - 52) (- 1074)
            in of_int (round_half_even (x / pow2 e)) * pow2 e))"

datatype pyfloat = Finite rat | PosInf | NegInf | NaN

definition to_double :: "rat \<Rightarrow> pyfloat" where
  "to_double x =
     (let r = round_double x
      in if 2 ^ 1024 \<le> \<bar>r\<bar> then (if 0 < x then PosInf else NegInf) else Finite r)"

text \<open>
  \<^verbatim>\<open>int * float\<close> converts the integer first; Python raises \<^verbatim>\<open>OverflowError\<close> when
  the integer is too large for a double.
\<close>

datatype py_error = OverflowError

definition float_of_int :: "int \<Rightarrow> py_error + pyfloat" where
  "float_of_int k = (case to_double (of_int k) of Finite r \<Rightarrow> Inr (Finite r) | _ \<Rightarrow> Inl OverflowError)"





fun fsign :: "pyfloat \<Rightarrow> int" where
  "fsign (Finite a) = (if a < 0 then - 1 else if a = 0 then 0 else 1)"
| "fsign PosInf = 1"
| "fsign NegInf = - 1"
| "fsign NaN = 0"

fun fmul :: "pyfloat \<Rightarrow> pyfloat \<Rightarrow> pyfloat" where
  "fmul (Finite a) (Finite b) = to_double (a * b)"
| "fmul NaN y = NaN"
| "fmul x NaN = NaN"
| "fmul x y =
     (if fsign x * fsign y = 0 then NaN else if 0 < fsign x * fsign y then PosInf else NegInf)"

text \<open>\<^verbatim>\<open>x > y\<close> on floats, and \<^verbatim>\<open>k > y\<close> for an integer \<open>k\<close>, which Python compares exactly.\<close>

fun fgt :: "pyfloat \<Rightarrow> pyfloat \<Rightarrow> bool" where
  "fgt (Finite a) (Finite b) = (b < a)"
| "fgt NaN y = False"
| "fgt x NaN = False"
| "fgt PosInf PosInf = False"
| "fgt PosInf y = True"
| "fgt x PosInf = False"
| "fgt NegInf y = False"
| "fgt (Finite a) NegInf = True"

definition int_gt_float :: "int \<Rightarrow> pyfloat \<Rightarrow> bool" where
  "int_gt_float k y = fgt (Finite (of_int k)) y"

section \<open>Value ranges (\<^verbatim>\<open>tests/data_quality/test_value_ranges.py\<close>)\<close>

subsection \<open>\<^verbatim>\<open>test_age_in_valid_range\<close>\<close>

text \<open>
  A finding is the dictionary the loop appends, as the tuple
  \<open>(user_id, name, age, issue)\<close>.
\<close>

type_synonym age_finding = "int \<times> string \<times> int \<times> string"

fun age_loop ::
  "User list \<Rightarrow> age_finding list \<Rightarrow> age_finding list \<Rightarrow> age_finding list \<times> age_finding list"
where
  "age_loop [] invalid_ages suspicious_ages = (invalid_ages, suspicious_ages)"
| "age_loop (user # rest) invalid_ages suspicious_ages =
     (case u_age user of
        None \<Rightarrow> age_loop rest invalid_ages suspicious_ages
      | Some age \<Rightarrow>
          if age < 0 \<or> age > 120 then
            age_loop rest
              (invalid_ages @ [(u_id user, u_name user, age, ''Age outside valid range (0-120)'')])
              suspicious_ages
          else if age < 13 then
            age_loop rest invalid_ages
              (suspicious_ages @ [(u_id user, u_name user, age, ''Minor account (<13) - may violate TOS'')])
          else age_loop rest invalid_ages suspicious_ages)"

definition test_age_in_valid_range ::
  "User list \<Rightarrow> age_finding list \<times> age_finding list \<times> verdict"
where
  "test_age_in_valid_range sample_users =
     (case age_loop sample_users [] [] of
        (invalid_ages, suspicious_ages) \<Rightarrow>
          (invalid_ages, suspicious_ages,
           if length invalid_ages = 0 then Passed else Failed))"

subsection \<open>\<^verbatim>\<open>test_price_in_valid_range\<close>\<close>

text \<open>A finding is \<open>(product_id, name, price, issue)\<close>.\<close>

type_synonym price_finding = "int \<times> string \<times> rat \<times> string"

fun price_loop :: "Product list \<Rightarrow> price_finding list \<Rightarrow> price_finding list" where
  "price_loop [] invalid_prices = invalid_prices"
| "price_loop (product # rest) invalid_prices =
     (let price = p_price product in
      if price < 0 then
        price_loop rest (invalid_prices @ [(p_id product, p_name product, price, ''Negative price'')])
      else if price = 0 then
        price_loop rest
          (invalid_prices @ [(p_id product, p_name product, price, ''Zero price (verify intentional)'')])
      else if price > 1000000 then
        price_loop rest
          (invalid_prices @ [(p_id product, p_name product, price, ''Price > $1M (verify legitimate)'')])
      else price_loop rest invalid_prices)"

definition test_price_in_valid_range :: "Product list \<Rightarrow> price_finding list \<times> verdict" where
  "test_price_in_valid_range sample_products =
     (let invalid_prices = price_loop sample_products [] in
      (invalid_prices, if length invalid_prices = 0 then Passed else Failed))"

text \<open>
  \<^verbatim>\<open>test_negative_price_detection\<close> of \<^verbatim>\<open>tests/integration/test_data_integrity.py\<close>
  is the second price check: it queries the products with \<^verbatim>\<open>Product.price <= 0\<close>.
\<close>

definition test_negative_price_detection :: "Product list \<Rightarrow> Product list \<times> verdict" where
  "test_negative_price_detection products =
     (let invalid_price_products = filter (\<lambda>p. p_price p \<le> 0) products in
      (invalid_price_products, if length invalid_price_products = 0 then Passed else Failed))"

section \<open>Consistency (\<^verbatim>\<open>tests/integration/test_data_integrity.py\<close>)\<close>

subsection \<open>\<^verbatim>\<open>test_order_total_matches_items_sum\<close>\<close>







subsection \<open>Orphaned records\<close>

text \<open>
  \<^verbatim>\<open>query(Child).outerjoin(Parent, on)\<close> is a left outer join: every child row is paired
  with each parent row that satisfies the join condition, and with no parent (SQL
  \<^verbatim>\<open>NULL\<close>s) when there is none. The filter \<^verbatim>\<open>Parent.id == None\<close> keeps the pairs whose
  parent id is \<^verbatim>\<open>NULL\<close>, and the query returns their child rows.
\<close>

definition outerjoin :: "'c list \<Rightarrow> 'p list \<Rightarrow> ('c \<Rightarrow> 'p \<Rightarrow> bool) \<Rightarrow> ('c \<times> 'p option) list" where
  "outerjoin children parents onclause =
     concat (map (\<lambda>c. case filter (onclause c) parents of
                         [] \<Rightarrow> [(c, None)]
                       | ms \<Rightarrow> map (\<lambda>p. (c, Some p)) ms) children)"

definition parent_id_is_null :: "('p \<Rightarrow> int) \<Rightarrow> ('c \<times> 'p option) list \<Rightarrow> 'c list" where
  "parent_id_is_null parent_id joined =
     map fst (filter (\<lambda>(c, p). map_option parent_id p = None) joined)"

definition test_no_orphaned_orders :: "User list \<Rightarrow> Order list \<Rightarrow> Order list \<times> verdict" where
  "test_no_orphaned_orders users orders =
     (let orphaned_orders =
            parent_id_is_null u_id (outerjoin orders users (\<lambda>order user. o_user_id order = u_id user))
      in (orphaned_orders, if length orphaned_orders = 0 then Passed else Failed))"

definition test_no_orphaned_order_items ::
  "Order list \<Rightarrow> OrderItem list \<Rightarrow> OrderItem list \<times> verdict"
where
  "test_no_orphaned_order_items orders order_items =
     (let orphaned_items =
            parent_id_is_null o_id
              (outerjoin order_items orders (\<lambda>item order. i_order_id item = o_id order))
      in (orphaned_items, if length orphaned_items = 0 then Passed else Failed))"

definition test_no_orphaned_order_items_products ::
  "Product list \<Rightarrow> OrderItem list \<Rightarrow> OrderItem list \<times> verdict"
where
  "test_no_orphaned_order_items_products products order_items =
     (let orphaned_items =
            parent_id_is_null p_id
              (outerjoin order_items products (\<lambda>item product. i_product_id item = p_id product))
      in (orphaned_items, if length orphaned_items = 0 then Passed else Failed))"

section \<open>Duplicates (\<^verbatim>\<open>tests/data_quality/test_duplicates.py\<close>)\<close>

subsection \<open>\<^verbatim>\<open>test_no_duplicate_emails\<close>\<close>

text \<open>
  \<open>lower\<close> maps the letters \<^verbatim>\<open>A\<close> to \<^verbatim>\<open>Z\<close> to \<^verbatim>\<open>a\<close> to \<^verbatim>\<open>z\<close> and leaves every other
  character alone: SQL's \<^verbatim>\<open>lower\<close> and Python's \<^verbatim>\<open>str.lower\<close> on ASCII text.
\<close>

definition lower_char :: "char \<Rightarrow> char" where
  "lower_char c =
     (let n = (of_char c :: nat) in if 65 \<le> n \<and> n \<le> 90 then char_of (n + 32) else c)"

definition lower :: "string \<Rightarrow> string" where
  "lower s = map lower_char s"



subsection \<open>\<^verbatim>\<open>test_exact_duplicate_orders\<close>\<close>

text \<open>
  \<^verbatim>\<open>order_by(Order.user_id, Order.created_at)\<close> sorts by the pair. SQL leaves the order
  of rows with equal keys open; \<open>sort_key\<close> keeps them in table order.
  \<open>total_seconds\<close> turns a difference of two timestamps into seconds.
\<close>

definition order_by_user_id_created_at :: "Order list \<Rightarrow> Order list" where
  "order_by_user_id_created_at orders = sort_key (\<lambda>order. (o_user_id order, o_created_at order)) orders"

definition total_seconds :: "int \<Rightarrow> rat" where
  "total_seconds delta = of_int delta / 1000000"

text \<open>A finding is \<open>(order1_id, order2_id, user_id, amount, time_diff)\<close>.\<close>

type_synonym duplicate_order = "int \<times> int \<times> int \<times> rat \<times> rat"

definition suspiciously_similar :: "Order \<Rightarrow> Order \<Rightarrow> bool" where
  "suspiciously_similar order1 order2 \<longleftrightarrow>
     o_user_id order1 = o_user_id order2 \<and>
     o_total_amount order1 = o_total_amount order2 \<and>
     \<bar>total_seconds (o_created_at order1 - o_created_at order2)\<bar> < 60"

text \<open>
  The loop \<^verbatim>\<open>for i in range(len(all_orders) - 1)\<close> visits \<^verbatim>\<open>all_orders[i]\<close> and
  \<^verbatim>\<open>all_orders[i + 1]\<close>: each element with its successor, none for a list shorter than two.
\<close>

fun duplicate_loop :: "Order list \<Rightarrow> duplicate_order list \<Rightarrow> duplicate_order list" where
  "duplicate_loop (order1 # order2 # rest) duplicates =
     (if suspiciously_similar order1 order2 then
        duplicate_loop (order2 # rest)
          (duplicates @
             [(o_id order1, o_id order2, o_user_id order1, o_total_amount order1,
               \<bar>total_seconds (o_created_at order1 - o_created_at order2)\<bar>)])
      else duplicate_loop (order2 # rest) duplicates)"
| "duplicate_loop all_orders duplicates = duplicates"

definition test_exact_duplicate_orders :: "Order list \<Rightarrow> duplicate_order list \<times> verdict" where
  "test_exact_duplicate_orders orders =
     (let all_orders = order_by_user_id_created_at orders;
          duplicates = duplicate_loop all_orders []
      in (duplicates, Passed))"

section \<open>Email validation (\<^verbatim>\<open>tests/data_quality/test_email_validation.py\<close>)\<close>

subsection \<open>Regular expressions\<close>

text \<open>
  The patterns of the module use literal characters, bracket expressions, \<^verbatim>\<open>\d\<close>,
  \<^verbatim>\<open>+\<close> and \<^verbatim>\<open>{n,}\<close>. Whether such a pattern matches is a question of language
  membership, decided here with derivatives. \<open>Alt\<close> and \<open>Null\<close> only arise as
  derivatives.
\<close>

datatype item = Single char | Range char char

fun in_item :: "char \<Rightarrow> item \<Rightarrow> bool" where
  "in_item c (Single d) = (c = d)"
| "in_item c (Range lo hi) = ((of_char lo :: nat) \<le> of_char c \<and> (of_char c :: nat) \<le> of_char hi)"

datatype regex =
    Null
  | Eps
  | Cls "item list"
  | Seq regex regex
  | Alt regex regex
  | Star regex

fun nullable :: "regex \<Rightarrow> bool" where
  "nullable Null = False"
| "nullable Eps = True"
| "nullable (Cls its) = False"
| "nullable (Seq r s) = (nullable r \<and> nullable s)"
| "nullable (Alt r s) = (nullable r \<or> nullable s)"
| "nullable (Star r) = True"

fun deriv :: "char \<Rightarrow> regex \<Rightarrow> regex" where
  "deriv c Null = Null"
| "deriv c Eps = Null"
| "deriv c (Cls its) = (if list_ex (in_item c) its then Eps else Null)"
| "deriv c (Seq r s) =
     (if nullable r then Alt (Seq (deriv c r) s) (deriv c s) else Seq (deriv c r) s)"
| "deriv c (Alt r s) = Alt (deriv c r) (deriv c s)"
| "deriv c (Star r) = Seq (deriv c r) (Star r)"

text \<open>The whole string matches the pattern.\<close>

fun fullmatch :: "regex \<Rightarrow> string \<Rightarrow> bool" where
  "fullmatch r [] = nullable r"
| "fullmatch r (c # cs) = fullmatch (deriv c r) cs"

text \<open>\<^verbatim>\<open>re.match\<close>: some prefix of the string matches the pattern.\<close>

fun re_match :: "regex \<Rightarrow> string \<Rightarrow> bool" where
  "re_match r [] = nullable r"
| "re_match r (c # cs) = (nullable r \<or> re_match (deriv c r) cs)"

text \<open>\<^verbatim>\<open>re.search\<close>: the pattern matches at some position of the string.\<close>

fun re_search :: "regex \<Rightarrow> string \<Rightarrow> bool" where
  "re_search r [] = nullable r"
| "re_search r (c # cs) = (re_match r (c # cs) \<or> re_search r cs)"

text \<open>
  A pattern \<^verbatim>\<open>^r$\<close> given to \<^verbatim>\<open>match\<close>: Python's \<^verbatim>\<open>$\<close> (without \<^verbatim>\<open>re.MULTILINE\<close>)
  matches at the end of the string and also just before a newline that ends the
  string.
\<close>

definition newline :: char where
  "newline = CHR 0x0A"

definition match_anchored :: "regex \<Rightarrow> string \<Rightarrow> bool" where
  "match_anchored r s \<longleftrightarrow>
     fullmatch r s \<or> (s \<noteq> [] \<and> last s = newline \<and> fullmatch r (butlast s))"

text \<open>Building blocks: a literal string, \<^verbatim>\<open>r+\<close> and \<^verbatim>\<open>r{n,}\<close>.\<close>

fun literal :: "string \<Rightarrow> regex" where
  "literal [] = Eps"
| "literal (c # cs) = Seq (Cls [Single c]) (literal cs)"

definition plus :: "regex \<Rightarrow> regex" where
  "plus r = Seq r (Star r)"

fun at_least :: "nat \<Rightarrow> regex \<Rightarrow> regex" where
  "at_least 0 r = Star r"
| "at_least (Suc n) r = Seq r (at_least n r)"

subsection \<open>String operations\<close>

text \<open>
  \<^verbatim>\<open>s.split(sep)\<close> for a separator of one character, and \<^verbatim>\<open>s.strip()\<close>, which removes
  the leading and trailing whitespace characters of Python (among ASCII: tab, line
  feed, vertical tab, form feed, carriage return, the four separators 0x1C to 0x1F and
  the space).
\<close>

fun split :: "char \<Rightarrow> string \<Rightarrow> string list" where
  "split sep [] = [[]]"
| "split sep (c # cs) =
     (if c = sep then [] # split sep cs
      else (case split sep cs of [] \<Rightarrow> [[c]] | part # parts \<Rightarrow> (c # part) # parts))"

definition isspace :: "char \<Rightarrow> bool" where
  "isspace c \<longleftrightarrow> (let n = (of_char c :: nat) in (9 \<le> n \<and> n \<le> 13) \<or> (28 \<le> n \<and> n \<le> 32))"

definition strip :: "string \<Rightarrow> string" where
  "strip s = rev (dropWhile isspace (rev (dropWhile isspace s)))"

subsection \<open>The format checks\<close>

text \<open>
  A finding of \<^verbatim>\<open>test_email_contains_at_symbol\<close> is \<open>(user_id, name, email, issue)\<close>;
  a finding of the other checks is \<open>(user_id, email, issue)\<close>.
\<close>

fun at_symbol_loop ::
  "User list \<Rightarrow> (int \<times> string \<times> string \<times> string) list \<Rightarrow> (int \<times> string \<times> string \<times> string) list"
where
  "at_symbol_loop [] invalid_emails = invalid_emails"
| "at_symbol_loop (user # rest) invalid_emails =
     (if CHR ''@'' \<notin> set (u_email user) then
        at_symbol_loop rest
          (invalid_emails @ [(u_id user, u_name user, u_email user, ''Missing @ symbol'')])
      else at_symbol_loop rest invalid_emails)"

definition test_email_contains_at_symbol ::
  "User list \<Rightarrow> (int \<times> string \<times> string \<times> string) list \<times> verdict"
where
  "test_email_contains_at_symbol sample_users =
     (let invalid_emails = at_symbol_loop sample_users [] in
      (invalid_emails, if length invalid_emails = 0 then Passed else Failed))"

type_synonym email_finding = "int \<times> string \<times> string"

fun domain_loop :: "User list \<Rightarrow> email_finding list \<Rightarrow> email_finding list" where
  "domain_loop [] invalid_emails = invalid_emails"
| "domain_loop (user # rest) invalid_emails =
     (let email = u_email user in
      if CHR ''@'' \<in> set email then
        (let parts = split CHR ''@'' email in
         if length parts \<noteq> 2 \<or> parts ! 1 = [] \<or> parts ! 0 = [] then
           domain_loop rest (invalid_emails @ [(u_id user, email, ''Malformed @ structure'')])
         else if CHR ''.'' \<notin> set (parts ! 1) then
           domain_loop rest (invalid_emails @ [(u_id user, email, ''Domain missing . (dot)'')])
         else domain_loop rest invalid_emails)
      else domain_loop rest invalid_emails)"

definition test_email_has_domain :: "User list \<Rightarrow> email_finding list \<times> verdict" where
  "test_email_has_domain sample_users =
     (let invalid_emails = domain_loop sample_users [] in
      (invalid_emails, if length invalid_emails = 0 then Passed else Failed))"

text \<open>
  The whitespace check has two independent \<^verbatim>\<open>if\<close>s, so one email can be listed twice.
  The first finding stores \<^verbatim>\<open>repr(email)\<close>; the model stores the email.
\<close>

fun whitespace_loop :: "User list \<Rightarrow> email_finding list \<Rightarrow> email_finding list" where
  "whitespace_loop [] invalid_emails = invalid_emails"
| "whitespace_loop (user # rest) invalid_emails =
     (let email = u_email user;
          invalid_emails1 =
            (if email \<noteq> strip email
             then invalid_emails @ [(u_id user, email, ''Leading/trailing whitespace'')]
             else invalid_emails);
          invalid_emails2 =
            (if CHR '' '' \<in> set email
             then invalid_emails1 @ [(u_id user, email, ''Contains spaces'')]
             else invalid_emails1)
      in whitespace_loop rest invalid_emails2)"

definition test_email_no_whitespace :: "User list \<Rightarrow> email_finding list \<times> verdict" where
  "test_email_no_whitespace sample_users =
     (let invalid_emails = whitespace_loop sample_users [] in
      (invalid_emails, if length invalid_emails = 0 then Passed else Failed))"

text \<open>
  The pattern \<^verbatim>\<open>^[a-zA-Z0-9._%+-]+@[a-zA-Z0-9.-]+\.[a-zA-Z]{2,}$\<close> without its anchors.
\<close>

definition email_pattern :: regex where
  "email_pattern =
     Seq (plus (Cls [Range CHR ''a'' CHR ''z'', Range CHR ''A'' CHR ''Z'', Range CHR ''0'' CHR ''9'',
                     Single CHR ''.'', Single CHR ''_'', Single CHR ''%'', Single CHR ''+'',
                     Single CHR ''-'']))
    (Seq (Cls [Single CHR ''@''])
    (Seq (plus (Cls [Range CHR ''a'' CHR ''z'', Range CHR ''A'' CHR ''Z'', Range CHR ''0'' CHR ''9'',
                     Single CHR ''.'', Single CHR ''-'']))
    (Seq (Cls [Single CHR ''.''])
         (at_least 2 (Cls [Range CHR ''a'' CHR ''z'', Range CHR ''A'' CHR ''Z''])))))"

fun regex_loop :: "User list \<Rightarrow> email_finding list \<Rightarrow> email_finding list" where
  "regex_loop [] invalid_emails = invalid_emails"
| "regex_loop (user # rest) invalid_emails =
     (let email = u_email user in
      if \<not> match_anchored email_pattern email then
        regex_loop rest (invalid_emails @ [(u_id user, email, ''Does not match RFC pattern'')])
      else regex_loop rest invalid_emails)"

definition test_email_regex_pattern :: "User list \<Rightarrow> email_finding list \<times> verdict" where
  "test_email_regex_pattern sample_users =
     (let invalid_emails = regex_loop sample_users [] in
      (invalid_emails, if length invalid_emails = 0 then Passed else Failed))"

subsection \<open>\<^verbatim>\<open>test_email_suspicious_patterns\<close>\<close>

definition digit :: regex where
  "digit = Cls [Range CHR ''0'' CHR ''9'']"

definition suspicious_patterns :: "regex list" where
  "suspicious_patterns =
     [literal ''test@test'',
      literal ''admin@admin'',
      literal ''fake@'',
      literal ''noreply@'',
      literal ''@mailinator'',
      literal ''@guerrillamail'',
      literal ''@10minutemail'',
      Seq (at_least 5 digit) (literal ''@'')]"

text \<open>
  The inner loop stops at the first pattern found in the email. A finding is
  \<open>(user_id, email, pattern, risk)\<close>, with the email as stored.
\<close>

fun first_pattern :: "regex list \<Rightarrow> string \<Rightarrow> regex option" where
  "first_pattern [] email = None"
| "first_pattern (pattern # rest) email =
     (if re_search pattern email then Some pattern else first_pattern rest email)"

type_synonym suspicious_finding = "int \<times> string \<times> regex \<times> string"

fun suspicious_loop :: "User list \<Rightarrow> suspicious_finding list \<Rightarrow> suspicious_finding list" where
  "suspicious_loop [] suspicious_emails = suspicious_emails"
| "suspicious_loop (user # rest) suspicious_emails =
     (let email = lower (u_email user) in
      case first_pattern suspicious_patterns email of
        Some pattern \<Rightarrow>
          suspicious_loop rest
            (suspicious_emails @ [(u_id user, u_email user, pattern, ''Potential fake/test account'')])
      | None \<Rightarrow> suspicious_loop rest suspicious_emails)"

text \<open>
  The threshold \<^verbatim>\<open>len(sample_users) * 0.1\<close> is a float product: the length is converted
  to a float and multiplied by the double that \<^verbatim>\<open>0.1\<close> denotes. The comparison of the
  integer \<^verbatim>\<open>len(suspicious_emails)\<close> with it is exact.
\<close>

definition test_email_suspicious_patterns ::
  "User list \<Rightarrow> py_error + suspicious_finding list \<times> verdict"
where
  "test_email_suspicious_patterns sample_users =
     (let suspicious_emails = suspicious_loop sample_users [] in
      case float_of_int (int (length sample_users)) of
        Inl e \<Rightarrow> Inl e
      | Inr n \<Rightarrow>
          Inr (suspicious_emails,
               if int_gt_float (int (length suspicious_emails)) (fmul n (to_double (1 / 10)))
               then Failed else Passed))"

section \<open>Constraint probes (\<^verbatim>\<open>tests/integration/test_data_integrity.py\<close>)\<close>

subsection \<open>The session\<close>

text \<open>
  The probes build an object, \<^verbatim>\<open>add\<close> it to the session and \<^verbatim>\<open>commit\<close>. The session is
  SQLAlchemy's and the store behind it is the database engine; the model keeps what the
  probes depend on:
  \<^item> \<open>committed\<close>: the rows that are durable in the store;
  \<^item> \<open>pending\<close>: the objects added in the open transaction;
  \<^item> \<^verbatim>\<open>commit\<close> either raises and changes nothing, or makes the pending objects durable
    and ends the transaction. Which of the two happens is the store's decision (its
    engine and configuration), so it is a parameter: \<open>rejects committed pending\<close>;
  \<^item> \<^verbatim>\<open>rollback\<close> discards what is pending. It cannot undo a transaction that is
    already committed.
\<close>

datatype orm_object =
    NewUser "string option" "string option" "int option"
  | NewProduct string string rat int
  | NewOrder int string rat

record session =
  committed :: "orm_object list"
  pending :: "orm_object list"

datatype db_error = IntegrityError

type_synonym store_policy = "orm_object list \<Rightarrow> orm_object list \<Rightarrow> bool"

definition add :: "orm_object \<Rightarrow> session \<Rightarrow> session" where
  "add obj s = s\<lparr>pending := pending s @ [obj]\<rparr>"

definition rollback :: "session \<Rightarrow> session" where
  "rollback s = s\<lparr>pending := []\<rparr>"

definition commit :: "store_policy \<Rightarrow> session \<Rightarrow> db_error + session" where
  "commit rejects s =
     (if rejects (committed s) (pending s) then Inl IntegrityError
      else Inr \<lparr>committed = committed s @ pending s, pending = []\<rparr>)"

text \<open>
  The fixture \<^verbatim>\<open>db_session\<close> of \<^verbatim>\<open>tests/conftest.py\<close>: a fresh session on the store,
  the test, then \<^verbatim>\<open>session.rollback()\<close> and \<^verbatim>\<open>session.close()\<close> whatever the outcome of the
  test. The result is the verdict and the rows of the store afterwards.
\<close>

definition db_session ::
  "(session \<Rightarrow> verdict \<times> session) \<Rightarrow> orm_object list \<Rightarrow> verdict \<times> orm_object list"
where
  "db_session test store =
     (case test \<lparr>committed = store, pending = []\<rparr> of
        (outcome, s) \<Rightarrow> (outcome, committed (rollback s)))"

text \<open>
  Two stores for concrete runs. \<open>sqlite_default\<close> is the engine the fixtures use, as
  the docstring of the foreign-key probe describes it: \<^verbatim>\<open>UNIQUE\<close> and \<^verbatim>\<open>NOT NULL\<close> are
  enforced, foreign keys are not. \<open>enforcing\<close> rejects every object the probes try.
\<close>

fun user_email :: "orm_object \<Rightarrow> string option" where
  "user_email (NewUser name email age) = email"
| "user_email obj = None"

fun product_sku :: "orm_object \<Rightarrow> string option" where
  "product_sku (NewProduct name sku price stock) = Some sku"
| "product_sku obj = None"

fun sqlite_violation :: "orm_object list \<Rightarrow> orm_object \<Rightarrow> bool" where
  "sqlite_violation rows (NewUser name email age) =
     (name = None \<or> email = None \<or> list_ex (\<lambda>row. user_email row = email) rows)"
| "sqlite_violation rows (NewProduct name sku price stock) =
     list_ex (\<lambda>row. product_sku row = Some sku) rows"
| "sqlite_violation rows (NewOrder user_id status total_amount) = False"

definition sqlite_default :: store_policy where
  "sqlite_default rows objs = list_ex (sqlite_violation rows) objs"

definition enforcing :: store_policy where
  "enforcing rows objs = (objs \<noteq> [])"

subsection \<open>The probes\<close>

text \<open>
  \<^verbatim>\<open>pytest.fail\<close> raises an exception that does not derive from \<^verbatim>\<open>Exception\<close>, so the
  \<^verbatim>\<open>except Exception\<close> of a probe does not catch it: a probe that reaches \<^verbatim>\<open>pytest.fail\<close>
  ends there, \<open>Failed\<close>, with the session as it is.
\<close>

definition test_cannot_insert_order_with_invalid_user_id ::
  "store_policy \<Rightarrow> session \<Rightarrow> verdict \<times> session"
where
  "test_cannot_insert_order_with_invalid_user_id rejects db =
     (let invalid_user_id = 99999;
          order = NewOrder invalid_user_id ''pending'' 100;
          db1 = add order db
      in case commit rejects db1 of
           Inr db2 \<Rightarrow> (Passed, rollback db2)
         | Inl e \<Rightarrow> (Passed, rollback db1))"

definition test_duplicate_email_rejected ::
  "store_policy \<Rightarrow> string \<Rightarrow> session \<Rightarrow> verdict \<times> session"
where
  "test_duplicate_email_rejected rejects existing_email db =
     (let duplicate_user = NewUser (Some ''Different Name'') (Some existing_email) (Some 25);
          db1 = add duplicate_user db
      in case commit rejects db1 of
           Inr db2 \<Rightarrow> (Failed, db2)
         | Inl e \<Rightarrow> (Passed, rollback db1))"

fun null_loop :: "store_policy \<Rightarrow> orm_object list \<Rightarrow> session \<Rightarrow> verdict \<times> session" where
  "null_loop rejects [] db = (Passed, db)"
| "null_loop rejects (user # rest) db =
     (let db1 = add user db
      in case commit rejects db1 of
           Inr db2 \<Rightarrow> (Failed, db2)
         | Inl e \<Rightarrow> null_loop rejects rest (rollback db1))"

definition test_null_required_fields_rejected :: "store_policy \<Rightarrow> session \<Rightarrow> verdict \<times> session" where
  "test_null_required_fields_rejected rejects db =
     (let invalid_users =
            [NewUser None (Some ''test@example.com'') (Some 30),
             NewUser (Some ''John Doe'') None (Some 30)]
      in null_loop rejects invalid_users db)"

definition test_duplicate_sku_rejected ::
  "store_policy \<Rightarrow> string \<Rightarrow> session \<Rightarrow> verdict \<times> session"
where
  "test_duplicate_sku_rejected rejects existing_sku db =
     (let duplicate_product = NewProduct ''Different Product'' existing_sku 99.99 10;
          db1 = add duplicate_product db
      in case commit rejects db1 of
           Inr db2 \<Rightarrow> (Failed, db2)
         | Inl e \<Rightarrow> (Passed, rollback db1))"

section \<open>Properties of the range rules\<close>

lemma age_loop_filter:
  "age_loop (filter (\<lambda>u. u_age u \<noteq> None) users) iv sv = age_loop users iv sv"
  by (induction users arbitrary: iv sv) (auto split: option.splits)

lemma age_loop_invalid:
  "fst (age_loop users iv sv) =
     iv @ map (\<lambda>u. (u_id u, u_name u, the (u_age u), ''Age outside valid range (0-120)''))
             (filter (\<lambda>u. case u_age u of None \<Rightarrow> False | Some a \<Rightarrow> a < 0 \<or> a > 120) users)"
  by (induction users arbitrary: iv sv) (auto split: option.splits)

lemma age_loop_suspicious:
  "snd (age_loop users iv sv) =
     sv @ map (\<lambda>u. (u_id u, u_name u, the (u_age u), ''Minor account (<13) - may violate TOS''))
             (filter (\<lambda>u. case u_age u of None \<Rightarrow> False | Some a \<Rightarrow> 0 \<le> a \<and> a < 13) users)"
  by (induction users arbitrary: iv sv) (auto split: option.splits)

lemma age_findings_origin:
  "f \<in> set (fst (age_loop users [] [])) \<union> set (snd (age_loop users [] [])) \<Longrightarrow>
     \<exists>u \<in> set users. \<exists>a. u_age u = Some a \<and> fst f = u_id u \<and> fst (snd f) = u_name u \<and> fst (snd (snd f)) = a"
  unfolding age_loop_invalid age_loop_suspicious
  by (auto split: option.splits)

text \<open>
  Claim C10. A user whose age is \<^verbatim>\<open>None\<close> is never flagged by the age rule:
  \<^item> the rule returns the same lists and the same verdict when the users without an age
    are removed from its input;
  \<^item> every finding, in the list of invalid ages and in the list of minor accounts,
    comes from a user who has an age, and carries that user's id, name and age;
  \<^item> when every age that is present lies in \<open>[0, 120]\<close> the rule passes, however many
    users have no age.
\<close>

theorem age_rule_skips_missing_age:
  "test_age_in_valid_range users = test_age_in_valid_range (filter (\<lambda>u. u_age u \<noteq> None) users)
   \<and> (\<forall>f \<in> set (fst (test_age_in_valid_range users)) \<union> set (fst (snd (test_age_in_valid_range users))).
        \<exists>u \<in> set users. \<exists>a. u_age u = Some a \<and> f = (u_id u, u_name u, a, snd (snd (snd f))))
   \<and> ((\<forall>u \<in> set users. \<forall>a. u_age u = Some a \<longrightarrow> 0 \<le> a \<and> a \<le> 120)
        \<longrightarrow> snd (snd (test_age_in_valid_range users)) = Passed)"
proof (intro conjI)
  show "test_age_in_valid_range users = test_age_in_valid_range (filter (\<lambda>u. u_age u \<noteq> None) users)"
    by (simp only: test_age_in_valid_range_def age_loop_filter)
next
  have fs: "fst (test_age_in_valid_range users) = fst (age_loop users [] [])"
    "fst (snd (test_age_in_valid_range users)) = snd (age_loop users [] [])"
    by (simp_all add: test_age_in_valid_range_def split: prod.splits)
  show "\<forall>f \<in> set (fst (test_age_in_valid_range users)) \<union> set (fst (snd (test_age_in_valid_range users))).
        \<exists>u \<in> set users. \<exists>a. u_age u = Some a \<and> f = (u_id u, u_name u, a, snd (snd (snd f)))"
  proof
    fix f assume "f \<in> set (fst (test_age_in_valid_range users)) \<union> set (fst (snd (test_age_in_valid_range users)))"
    then have "f \<in> set (fst (age_loop users [] [])) \<union> set (snd (age_loop users [] []))"
      by (simp only: fs)
    from age_findings_origin[OF this]
    obtain u a where "u \<in> set users" "u_age u = Some a" "fst f = u_id u" "fst (snd f) = u_name u" "fst (snd (snd f)) = a"
      by blast
    then show "\<exists>u \<in> set users. \<exists>a. u_age u = Some a \<and> f = (u_id u, u_name u, a, snd (snd (snd f)))"
      by (cases f) auto
  qed
next
  show "(\<forall>u \<in> set users. \<forall>a. u_age u = Some a \<longrightarrow> 0 \<le> a \<and> a \<le> 120)
        \<longrightarrow> snd (snd (test_age_in_valid_range users)) = Passed"
  proof
    assume ok: "\<forall>u \<in> set users. \<forall>a. u_age u = Some a \<longrightarrow> 0 \<le> a \<and> a \<le> 120"
    then have "filter (\<lambda>u. case u_age u of None \<Rightarrow> False | Some a \<Rightarrow> a < 0 \<or> a > 120) users = []"
      by (auto simp: filter_empty_conv split: option.splits)
    then have "fst (age_loop users [] []) = []"
      by (simp add: age_loop_invalid)
    then show "snd (snd (test_age_in_valid_range users)) = Passed"
      by (auto simp: test_age_in_valid_range_def split: prod.splits)
  qed
qed

text \<open>
  Two of three users have no age and the third is ten years old: the rule lists the
  minor account and passes.
\<close>

theorem age_rule_skips_missing_age_witness:
  "test_age_in_valid_range
        [\<lparr>u_id = 1, u_name = ''Ann'', u_email = ''ann@example.com'', u_created_at = 0,
            u_is_active = True, u_age = None\<rparr>,
         \<lparr>u_id = 2, u_name = ''Bob'', u_email = ''bob@example.com'', u_created_at = 0,
            u_is_active = True, u_age = Some 10\<rparr>,
         \<lparr>u_id = 3, u_name = ''Cy'', u_email = ''cy@example.com'', u_created_at = 0,
            u_is_active = True, u_age = None\<rparr>]
     = ([], [(2, ''Bob'', 10, ''Minor account (<13) - may violate TOS'')], Passed)"
  using age_rule_skips_missing_age
    [of "[\<lparr>u_id = 1, u_name = ''Ann'', u_email = ''ann@example.com'', u_created_at = 0,
            u_is_active = True, u_age = None\<rparr>,
         \<lparr>u_id = 2, u_name = ''Bob'', u_email = ''bob@example.com'', u_created_at = 0,
            u_is_active = True, u_age = Some 10\<rparr>,
         \<lparr>u_id = 3, u_name = ''Cy'', u_email = ''cy@example.com'', u_created_at = 0,
            u_is_active = True, u_age = None\<rparr>]"]
  by (simp add: test_age_in_valid_range_def)

lemma price_loop_eq:
  "price_loop products acc =
     acc @ map (\<lambda>p. (p_id p, p_name p, p_price p,
                      if p_price p < 0 then ''Negative price''
                      else if p_price p = 0 then ''Zero price (verify intentional)''
                      else ''Price > $1M (verify legitimate)''))
             (filter (\<lambda>p. p_price p \<le> 0 \<or> p_price p > 1000000) products)"
  by (induction products arbitrary: acc) (auto simp: Let_def)

text \<open>
  Claim C1, as stated, says that a dataset whose only price anomaly is a price of exactly
  0 does not make the price rule fail. It does: the zero price is appended to
  \<^verbatim>\<open>invalid_prices\<close>, the list whose length the rule asserts to be 0. Here one product
  costs 0 and the other 19.99.
\<close>

theorem price_rule_zero_counterexample:
  "test_price_in_valid_range
     [\<lparr>p_id = 1, p_name = ''Gift'', p_sku = ''SKU-100001'', p_price = 0, p_stock = 5,
        p_created_at = 0\<rparr>,
      \<lparr>p_id = 2, p_name = ''Lamp'', p_sku = ''SKU-100002'', p_price = 19.99, p_stock = 3,
        p_created_at = 0\<rparr>]
   = ([(1, ''Gift'', 0, ''Zero price (verify intentional)'')], Failed)"
  by (simp add: test_price_in_valid_range_def)

text \<open>
  Claim C1, amended. The price rule has one list for all its findings and fails when
  the list is not empty:
  \<^item> it reports failure exactly when some price is \<open>\<le> 0\<close> or \<open>> 1000000\<close>;
  \<^item> a product whose price is exactly 0 is listed with the issue
    \<^verbatim>\<open>Zero price (verify intentional)\<close>, and the rule then reports failure;
  \<^item> the second price check, \<^verbatim>\<open>test_negative_price_detection\<close>, reports failure exactly
    when some price is \<open>\<le> 0\<close>.
\<close>

theorem price_rule_zero_is_invalid:
  "(snd (test_price_in_valid_range products) = Failed
      \<longleftrightarrow> (\<exists>p \<in> set products. p_price p \<le> 0 \<or> p_price p > 1000000))
   \<and> (\<forall>p \<in> set products. p_price p = 0 \<longrightarrow>
         (p_id p, p_name p, 0, ''Zero price (verify intentional)'')
            \<in> set (fst (test_price_in_valid_range products))
         \<and> snd (test_price_in_valid_range products) = Failed)
   \<and> (snd (test_negative_price_detection products) = Failed
      \<longleftrightarrow> (\<exists>p \<in> set products. p_price p \<le> 0))"
proof (intro conjI)
  have len: "price_loop products [] = [] \<longleftrightarrow> \<not> (\<exists>p \<in> set products. p_price p \<le> 0 \<or> p_price p > 1000000)"
    by (simp add: price_loop_eq filter_empty_conv)
  show iff: "snd (test_price_in_valid_range products) = Failed
      \<longleftrightarrow> (\<exists>p \<in> set products. p_price p \<le> 0 \<or> p_price p > 1000000)"
    using len by (simp add: test_price_in_valid_range_def Let_def)
  show "\<forall>p \<in> set products. p_price p = 0 \<longrightarrow>
         (p_id p, p_name p, 0, ''Zero price (verify intentional)'')
            \<in> set (fst (test_price_in_valid_range products))
         \<and> snd (test_price_in_valid_range products) = Failed"
  proof (intro ballI impI conjI)
    fix p assume p: "p \<in> set products" "p_price p = 0"
    then have "p \<in> set (filter (\<lambda>p. p_price p \<le> 0 \<or> p_price p > 1000000) products)"
      by simp
    then have "(p_id p, p_name p, p_price p,
                      if p_price p < 0 then ''Negative price''
                      else if p_price p = 0 then ''Zero price (verify intentional)''
                      else ''Price > $1M (verify legitimate)'') \<in> set (price_loop products [])"
      unfolding price_loop_eq by (simp only: append_Nil set_map image_eqI)
    with p show "(p_id p, p_name p, 0, ''Zero price (verify intentional)'')
            \<in> set (fst (test_price_in_valid_range products))"
      by (simp add: test_price_in_valid_range_def Let_def)
    from p have "\<exists>q \<in> set products. p_price q \<le> 0 \<or> p_price q > 1000000"
      by (intro bexI[of _ p]) simp_all
    with iff show "snd (test_price_in_valid_range products) = Failed"
      by blast
  qed
  show "snd (test_negative_price_detection products) = Failed
      \<longleftrightarrow> (\<exists>p \<in> set products. p_price p \<le> 0)"
    by (simp add: test_negative_price_detection_def Let_def filter_empty_conv)
qed

text \<open>A single product that costs 0 makes both price checks fail.\<close>

theorem price_rule_zero_is_invalid_witness:
  "snd (test_price_in_valid_range
     [\<lparr>p_id = 1, p_name = ''Gift'', p_sku = ''SKU-100001'', p_price = 0, p_stock = 5,
        p_created_at = 0\<rparr>]) = Failed
   \<and> snd (test_negative_price_detection
     [\<lparr>p_id = 1, p_name = ''Gift'', p_sku = ''SKU-100001'', p_price = 0, p_stock = 5,
        p_created_at = 0\<rparr>]) = Failed"
  using price_rule_zero_is_invalid
    [of "[\<lparr>p_id = 1, p_name = ''Gift'', p_sku = ''SKU-100001'', p_price = 0, p_stock = 5,
        p_created_at = 0\<rparr>]"]
  by simp

section \<open>Properties of orphan detection\<close>

lemma orphans_of_outerjoin:
  "parent_id_is_null parent_id (outerjoin children parents onclause) =
     filter (\<lambda>c. \<forall>p \<in> set parents. \<not> onclause c p) children"
proof (induction children)
  case Nil
  show ?case by (simp add: parent_id_is_null_def outerjoin_def)
next
  case (Cons c cs)
  have step: "parent_id_is_null parent_id (outerjoin (c # cs) parents onclause) =
      parent_id_is_null parent_id
        (case filter (onclause c) parents of [] \<Rightarrow> [(c, None)] | ms \<Rightarrow> map (\<lambda>p. (c, Some p)) ms)
      @ parent_id_is_null parent_id (outerjoin cs parents onclause)"
    by (simp add: parent_id_is_null_def outerjoin_def)
  have one: "parent_id_is_null parent_id
        (case filter (onclause c) parents of [] \<Rightarrow> [(c, None)] | ms \<Rightarrow> map (\<lambda>p. (c, Some p)) ms)
      = (if \<forall>p \<in> set parents. \<not> onclause c p then [c] else [])"
  proof (cases "filter (onclause c) parents")
    case Nil
    then have "\<forall>p \<in> set parents. \<not> onclause c p"
      by (simp add: filter_empty_conv)
    with Nil show ?thesis by (simp add: parent_id_is_null_def)
  next
    case (Cons m ms)
    then have "m \<in> set (filter (onclause c) parents)" by simp
    then have "\<not> (\<forall>p \<in> set parents. \<not> onclause c p)" by auto
    with Cons show ?thesis by (simp add: parent_id_is_null_def)
  qed
  show ?case
    by (simp only: step one Cons.IH) simp
qed

lemma no_match_iff: "(\<forall>p \<in> set parents. fk \<noteq> pid p) \<longleftrightarrow> fk \<notin> pid ` set parents"
  by auto

text \<open>
  Claim C6. Each of the three orphan checks returns exactly the child rows whose foreign
  key is the id of no parent row, each such row once and in table order, and no row
  whose foreign key resolves; a check reports failure exactly when it returns a row. In
  a dataset where one order item refers to no order, every other item refers to an
  order and every order refers to a user, the check of items against orders returns
  exactly that item and the check of orders against users returns nothing.
\<close>

theorem orphan_detection:
  "fst (test_no_orphaned_orders users orders) =
     filter (\<lambda>order. o_user_id order \<notin> u_id ` set users) orders
   \<and> fst (test_no_orphaned_order_items orders order_items) =
     filter (\<lambda>item. i_order_id item \<notin> o_id ` set orders) order_items
   \<and> fst (test_no_orphaned_order_items_products products order_items) =
     filter (\<lambda>item. i_product_id item \<notin> p_id ` set products) order_items
   \<and> (snd (test_no_orphaned_orders users orders) = Failed \<longleftrightarrow>
        fst (test_no_orphaned_orders users orders) \<noteq> [])
   \<and> (snd (test_no_orphaned_order_items orders order_items) = Failed \<longleftrightarrow>
        fst (test_no_orphaned_order_items orders order_items) \<noteq> [])
   \<and> (snd (test_no_orphaned_order_items_products products order_items) = Failed \<longleftrightarrow>
        fst (test_no_orphaned_order_items_products products order_items) \<noteq> [])
   \<and> (\<forall>before item after.
         order_items = before @ item # after \<and>
         i_order_id item \<notin> o_id ` set orders \<and>
         (\<forall>other \<in> set (before @ after). i_order_id other \<in> o_id ` set orders) \<and>
         (\<forall>order \<in> set orders. o_user_id order \<in> u_id ` set users) \<longrightarrow>
         test_no_orphaned_order_items orders order_items = ([item], Failed) \<and>
         test_no_orphaned_orders users orders = ([], Passed))"
proof -
  have a: "fst (test_no_orphaned_orders users orders) =
     filter (\<lambda>order. o_user_id order \<notin> u_id ` set users) orders"
    by (simp add: test_no_orphaned_orders_def Let_def orphans_of_outerjoin no_match_iff)
  have b: "fst (test_no_orphaned_order_items orders order_items) =
     filter (\<lambda>item. i_order_id item \<notin> o_id ` set orders) order_items"
    by (simp add: test_no_orphaned_order_items_def Let_def orphans_of_outerjoin no_match_iff)
  have c: "fst (test_no_orphaned_order_items_products products order_items) =
     filter (\<lambda>item. i_product_id item \<notin> p_id ` set products) order_items"
    by (simp add: test_no_orphaned_order_items_products_def Let_def orphans_of_outerjoin
        no_match_iff)
  have va: "snd (test_no_orphaned_orders users orders) = Failed \<longleftrightarrow>
        fst (test_no_orphaned_orders users orders) \<noteq> []"
    by (simp add: test_no_orphaned_orders_def Let_def)
  have vb: "snd (test_no_orphaned_order_items orders order_items) = Failed \<longleftrightarrow>
        fst (test_no_orphaned_order_items orders order_items) \<noteq> []"
    by (simp add: test_no_orphaned_order_items_def Let_def)
  have vc: "snd (test_no_orphaned_order_items_products products order_items) = Failed \<longleftrightarrow>
        fst (test_no_orphaned_order_items_products products order_items) \<noteq> []"
    by (simp add: test_no_orphaned_order_items_products_def Let_def)
  have scen: "test_no_orphaned_order_items orders order_items = ([item], Failed) \<and>
         test_no_orphaned_orders users orders = ([], Passed)"
    if h: "order_items = before @ item # after \<and>
         i_order_id item \<notin> o_id ` set orders \<and>
         (\<forall>other \<in> set (before @ after). i_order_id other \<in> o_id ` set orders) \<and>
         (\<forall>order \<in> set orders. o_user_id order \<in> u_id ` set users)"
    for before item after
  proof -
    from h have "filter (\<lambda>item. i_order_id item \<notin> o_id ` set orders) before = []"
      and "filter (\<lambda>item. i_order_id item \<notin> o_id ` set orders) after = []"
      by (auto simp: filter_empty_conv)
    with h have fi: "fst (test_no_orphaned_order_items orders order_items) = [item]"
      unfolding b by simp
    from h have fo: "fst (test_no_orphaned_orders users orders) = []"
      unfolding a by (auto simp: filter_empty_conv)
    from fi vb have "snd (test_no_orphaned_order_items orders order_items) = Failed"
      by simp
    moreover from fo va have "snd (test_no_orphaned_orders users orders) = Passed"
      by (cases "snd (test_no_orphaned_orders users orders)") simp_all
    ultimately show ?thesis
      using fi fo by (simp add: prod_eq_iff)
  qed
  from a b c va vb vc scen show ?thesis
    by blast
qed

text \<open>
  Two users, two orders that refer to them, and three items: items 1 and 3 refer to
  orders 10 and 11, item 2 refers to order 99, which does not exist.
\<close>

theorem orphan_detection_witness:
  "test_no_orphaned_order_items
     [\<lparr>o_id = 10, o_user_id = 1, o_status = ''pending'', o_total_amount = 5, o_created_at = 0\<rparr>,
      \<lparr>o_id = 11, o_user_id = 2, o_status = ''completed'', o_total_amount = 7, o_created_at = 0\<rparr>]
     ([\<lparr>i_id = 1, i_order_id = 10, i_product_id = 4, i_quantity = 1, i_price = 5\<rparr>] @
      \<lparr>i_id = 2, i_order_id = 99, i_product_id = 4, i_quantity = 1, i_price = 5\<rparr> #
      [\<lparr>i_id = 3, i_order_id = 11, i_product_id = 4, i_quantity = 1, i_price = 7\<rparr>])
     = ([\<lparr>i_id = 2, i_order_id = 99, i_product_id = 4, i_quantity = 1, i_price = 5\<rparr>], Failed)
   \<and> test_no_orphaned_orders
     [\<lparr>u_id = 1, u_name = ''Ann'', u_email = ''ann@example.com'', u_created_at = 0,
        u_is_active = True, u_age = None\<rparr>,
      \<lparr>u_id = 2, u_name = ''Bob'', u_email = ''bob@example.com'', u_created_at = 0,
        u_is_active = True, u_age = Some 40\<rparr>]
     [\<lparr>o_id = 10, o_user_id = 1, o_status = ''pending'', o_total_amount = 5, o_created_at = 0\<rparr>,
      \<lparr>o_id = 11, o_user_id = 2, o_status = ''completed'', o_total_amount = 7, o_created_at = 0\<rparr>]
     = ([], Passed)"
  by (rule orphan_detection
    [of "[\<lparr>u_id = 1, u_name = ''Ann'', u_email = ''ann@example.com'', u_created_at = 0,
        u_is_active = True, u_age = None\<rparr>,
      \<lparr>u_id = 2, u_name = ''Bob'', u_email = ''bob@example.com'', u_created_at = 0,
        u_is_active = True, u_age = Some 40\<rparr>]"
     "[\<lparr>o_id = 10, o_user_id = 1, o_status = ''pending'', o_total_amount = 5, o_created_at = 0\<rparr>,
      \<lparr>o_id = 11, o_user_id = 2, o_status = ''completed'', o_total_amount = 7, o_created_at = 0\<rparr>]"
     "[\<lparr>i_id = 1, i_order_id = 10, i_product_id = 4, i_quantity = 1, i_price = 5\<rparr>] @
      \<lparr>i_id = 2, i_order_id = 99, i_product_id = 4, i_quantity = 1, i_price = 5\<rparr> #
      [\<lparr>i_id = 3, i_order_id = 11, i_product_id = 4, i_quantity = 1, i_price = 7\<rparr>]",
     THEN conjunct2, THEN conjunct2, THEN conjunct2, THEN conjunct2, THEN conjunct2,
     THEN conjunct2, rule_format,
     of "[\<lparr>i_id = 1, i_order_id = 10, i_product_id = 4, i_quantity = 1, i_price = 5\<rparr>]"
        "\<lparr>i_id = 2, i_order_id = 99, i_product_id = 4, i_quantity = 1, i_price = 5\<rparr>"
        "[\<lparr>i_id = 3, i_order_id = 11, i_product_id = 4, i_quantity = 1, i_price = 7\<rparr>]"])
    simp

section \<open>Properties of the near-duplicate order rule\<close>

lemma duplicate_loop_eq:
  "duplicate_loop all_orders acc =
     acc @ map (\<lambda>(order1, order2).
                  (o_id order1, o_id order2, o_user_id order1, o_total_amount order1,
                   \<bar>total_seconds (o_created_at order1 - o_created_at order2)\<bar>))
             (filter (\<lambda>(order1, order2). suspiciously_similar order1 order2)
                (zip all_orders (tl all_orders)))"
  by (induction all_orders acc rule: duplicate_loop.induct) simp_all

lemma suspiciously_similar_iff:
  "suspiciously_similar order1 order2 \<longleftrightarrow>
     o_user_id order1 = o_user_id order2 \<and>
     o_total_amount order1 = o_total_amount order2 \<and>
     \<bar>o_created_at order1 - o_created_at order2\<bar> < 60000000"
proof -
  have "\<bar>total_seconds d\<bar> < 60 \<longleftrightarrow> \<bar>d\<bar> < 60000000" for d :: int
  proof -
    have "\<bar>total_seconds d\<bar> = rat_of_int \<bar>d\<bar> / 1000000"
      by (simp add: total_seconds_def)
    also have "\<dots> < 60 \<longleftrightarrow> rat_of_int \<bar>d\<bar> < rat_of_int 60000000"
      by (simp add: divide_less_eq)
    also have "\<dots> \<longleftrightarrow> \<bar>d\<bar> < 60000000"
      by (simp only: of_int_less_iff)
    finally show ?thesis .
  qed
  then show ?thesis
    by (simp add: suspiciously_similar_def)
qed

lemma adjacent_pairs_iff:
  "(a, b) \<in> set (zip xs (tl xs)) \<longleftrightarrow> (\<exists>i. Suc i < length xs \<and> xs ! i = a \<and> xs ! Suc i = b)"
proof
  assume "(a, b) \<in> set (zip xs (tl xs))"
  then obtain i where "i < length (zip xs (tl xs))" "zip xs (tl xs) ! i = (a, b)"
    by (auto simp: in_set_conv_nth)
  then have "Suc i < length xs \<and> xs ! i = a \<and> xs ! Suc i = b"
    by (auto simp: nth_tl)
  then show "\<exists>i. Suc i < length xs \<and> xs ! i = a \<and> xs ! Suc i = b" ..
next
  assume "\<exists>i. Suc i < length xs \<and> xs ! i = a \<and> xs ! Suc i = b"
  then obtain i where i: "Suc i < length xs" "xs ! i = a" "xs ! Suc i = b"
    by blast
  then have "i < length (zip xs (tl xs))" "zip xs (tl xs) ! i = (a, b)"
    by (auto simp: nth_tl)
  then show "(a, b) \<in> set (zip xs (tl xs))"
    by (metis nth_mem)
qed

text \<open>
  Claim C8. Writing \<open>sorted_orders\<close> for the query result:
  \<^item> it is the orders sorted by the pair \<open>(user_id, created_at)\<close>, a rearrangement of the
    table;
  \<^item> the findings of the rule are, in order, the pairs of neighbours of \<open>sorted_orders\<close>
    with the same \<open>user_id\<close>, the same \<open>total_amount\<close> and timestamps less than 60
    seconds (60000000 microseconds) apart; each finding carries both ids, the user, the
    amount and the distance in seconds;
  \<^item> two orders are neighbours when they stand at positions \<open>i\<close> and \<open>i + 1\<close>;
  \<^item> the rule passes whatever it finds.
\<close>

theorem near_duplicate_orders:
  "sorted (map (\<lambda>order. (o_user_id order, o_created_at order)) (order_by_user_id_created_at orders))
   \<and> mset (order_by_user_id_created_at orders) = mset orders
   \<and> fst (test_exact_duplicate_orders orders) =
       map (\<lambda>(order1, order2).
              (o_id order1, o_id order2, o_user_id order1, o_total_amount order1,
               \<bar>of_int (o_created_at order1 - o_created_at order2) / 1000000\<bar>))
         (filter (\<lambda>(order1, order2).
                    o_user_id order1 = o_user_id order2 \<and>
                    o_total_amount order1 = o_total_amount order2 \<and>
                    \<bar>o_created_at order1 - o_created_at order2\<bar> < 60000000)
            (zip (order_by_user_id_created_at orders) (tl (order_by_user_id_created_at orders))))
   \<and> (\<forall>order1 order2.
         (order1, order2) \<in> set (zip (order_by_user_id_created_at orders)
                                     (tl (order_by_user_id_created_at orders))) \<longleftrightarrow>
         (\<exists>i. Suc i < length (order_by_user_id_created_at orders) \<and>
              order_by_user_id_created_at orders ! i = order1 \<and>
              order_by_user_id_created_at orders ! Suc i = order2))
   \<and> snd (test_exact_duplicate_orders orders) = Passed"
proof (intro conjI allI)
  show "sorted (map (\<lambda>order. (o_user_id order, o_created_at order)) (order_by_user_id_created_at orders))"
    by (simp add: order_by_user_id_created_at_def)
  show "mset (order_by_user_id_created_at orders) = mset orders"
    by (simp add: order_by_user_id_created_at_def)
  show "fst (test_exact_duplicate_orders orders) =
       map (\<lambda>(order1, order2).
              (o_id order1, o_id order2, o_user_id order1, o_total_amount order1,
               \<bar>of_int (o_created_at order1 - o_created_at order2) / 1000000\<bar>))
         (filter (\<lambda>(order1, order2).
                    o_user_id order1 = o_user_id order2 \<and>
                    o_total_amount order1 = o_total_amount order2 \<and>
                    \<bar>o_created_at order1 - o_created_at order2\<bar> < 60000000)
            (zip (order_by_user_id_created_at orders) (tl (order_by_user_id_created_at orders))))"
    by (simp add: test_exact_duplicate_orders_def Let_def duplicate_loop_eq
        suspiciously_similar_iff total_seconds_def)
  show "snd (test_exact_duplicate_orders orders) = Passed"
    by (simp add: test_exact_duplicate_orders_def Let_def)
  fix order1 order2
  show "(order1, order2) \<in> set (zip (order_by_user_id_created_at orders)
                                     (tl (order_by_user_id_created_at orders))) \<longleftrightarrow>
         (\<exists>i. Suc i < length (order_by_user_id_created_at orders) \<and>
              order_by_user_id_created_at orders ! i = order1 \<and>
              order_by_user_id_created_at orders ! Suc i = order2)"
    by (rule adjacent_pairs_iff)
qed

text \<open>
  Three orders of user 1, listed out of order: 50.00 at second 40, 50.00 at second 0 and
  20.00 at second 10. Sorted, the two orders of 50.00 are not neighbours, so nothing is
  found, although they are 40 seconds apart. Without the third order they are found.
\<close>

theorem near_duplicate_orders_witness:
  "test_exact_duplicate_orders
     [\<lparr>o_id = 1, o_user_id = 1, o_status = ''pending'', o_total_amount = 50, o_created_at = 40000000\<rparr>,
      \<lparr>o_id = 2, o_user_id = 1, o_status = ''pending'', o_total_amount = 50, o_created_at = 0\<rparr>,
      \<lparr>o_id = 3, o_user_id = 1, o_status = ''pending'', o_total_amount = 20, o_created_at = 10000000\<rparr>]
     = ([], Passed)
   \<and> test_exact_duplicate_orders
     [\<lparr>o_id = 1, o_user_id = 1, o_status = ''pending'', o_total_amount = 50, o_created_at = 40000000\<rparr>,
      \<lparr>o_id = 2, o_user_id = 1, o_status = ''pending'', o_total_amount = 50, o_created_at = 0\<rparr>]
     = ([(2, 1, 1, 50, 40)], Passed)"
  using near_duplicate_orders
    [of "[\<lparr>o_id = 1, o_user_id = 1, o_status = ''pending'', o_total_amount = 50, o_created_at = 40000000\<rparr>,
      \<lparr>o_id = 2, o_user_id = 1, o_status = ''pending'', o_total_amount = 50, o_created_at = 0\<rparr>]"]
  by (simp add: test_exact_duplicate_orders_def order_by_user_id_created_at_def
      suspiciously_similar_def total_seconds_def)

section \<open>Properties of the duplicate-email rule\<close>










section \<open>Properties of the consistency rule\<close>










end
